theory Spec2Isabelle
  imports Complex_Main "HOL-Library.AList" "HOL-Library.Sublist"
begin

section \<open>The platform: values, errors, requests and responses\<close>

text \<open>
  The client of \<^verbatim>\<open>src/frontend/js/api.js\<close> is a class with one field and twelve methods
  over two platform operations, \<^verbatim>\<open>fetch\<close> and \<^verbatim>\<open>console.error\<close>. The platform is
  modelled first, as far as the class uses it.

  A Number is an IEEE 754 double. \<open>Finite q\<close> stands for the double nearest to the
  rational \<open>q\<close>, as \<open>to_double\<close> below computes it: ties go to the even significand,
  a value too large for a double is an infinity, one too small is zero. So every double
  is \<open>Finite\<close> of its own value, and the value of a numeral in a JSON text or in the code
  stands for the Number that JavaScript makes of it. The two zeros are not told apart:
  both are falsy and both print as \<^verbatim>\<open>0\<close>.
\<close>

datatype js_number = NaN | Infinity bool | Finite rat

text \<open>
  A decoded JSON value, the result of \<^verbatim>\<open>response.json()\<close>. An object is the list of its
  properties in insertion order, each name once. A number carries the value of its
  numeral and stands for \<open>Finite\<close> of it.
\<close>

datatype json =
    JNull
  | JBool bool
  | JNumber rat
  | JString string
  | JArray "json list"
  | JObject "(string \<times> json) list"

text \<open>An error object: its \<^verbatim>\<open>name\<close> and its \<^verbatim>\<open>message\<close>.\<close>

datatype js_error = JsError (error_name: string) (message: string)

definition new_Error :: "string \<Rightarrow> js_error" where
  "new_Error msg = JsError ''Error'' msg"

definition new_TypeError :: "string \<Rightarrow> js_error" where
  "new_TypeError msg = JsError ''TypeError'' msg"

text \<open>
  Rounding to a double. For a positive \<open>x\<close>, \<open>floor_log2 x\<close> is the \<open>E\<close> with
  \<open>2\<^sup>E \<le> x < 2\<^sup>E\<^sup>+\<^sup>1\<close>; the nearest double is a multiple of \<open>2\<^sup>e\<close> with
  \<open>e = max (E - 52) (- 1074)\<close>, the multiplier rounded half to even.
\<close>

function bit_length :: "int \<Rightarrow> int" where
  "bit_length n = (if n \<le> 0 then 0 else 1 + bit_length (n div 2))"
  by pat_completeness auto
termination
  by (relation "measure nat") auto

declare bit_length.simps [simp del]

definition pow2 :: "int \<Rightarrow> rat" where
  "pow2 e = (if 0 \<le> e then 2 ^ nat e else 1 / 2 ^ nat (- e))"

definition floor_log2 :: "rat \<Rightarrow> int" where
  "floor_log2 x =
     (if 1 \<le> x then bit_length \<lfloor>x\<rfloor> - 1 else - bit_length (\<lceil>1 / x\<rceil> - 1))"

definition round_half_even :: "rat \<Rightarrow> int" where
  "round_half_even q =
     (let f = \<lfloor>q\<rfloor>; r = q - of_int f
      in if r < 1 / 2 then f else if 1 / 2 < r then f + 1 else if even f then f else f + 1)"

definition nearest_double :: "rat \<Rightarrow> rat" where
  "nearest_double x =
     (let e = max (floor_log2 x - 52) (- 1074)
      in of_int (round_half_even (x / pow2 e)) * pow2 e)"

definition to_double :: "rat \<Rightarrow> js_number" where
  "to_double q =
     (if q = 0 then Finite 0
      else let x = nearest_double \<bar>q\<bar>
           in if pow2 1024 \<le> x then Infinity (q < 0)
              else Finite (if q < 0 then - x else x))"

text \<open>
  \<^verbatim>\<open>Number::toString\<close> (ECMA-262, radix 10), which a template literal and
  \<^verbatim>\<open>new Error\<close> apply to a Number. For a positive double \<open>x\<close> it takes the integers
  \<open>n\<close>, \<open>k\<close> and \<open>s\<close> with \<open>s\<close> of \<open>k\<close> digits, \<open>k\<close> as small as possible, such that
  \<open>s \<times> 10\<^sup>n\<^sup>-\<^sup>k\<close> rounds to \<open>x\<close>; of two such \<open>s\<close> the one nearer to \<open>x\<close>, as the engines
  do. \<open>decimal_exponent x\<close> is the \<open>n\<close> with \<open>10\<^sup>n\<^sup>-\<^sup>1 \<le> x < 10\<^sup>n\<close>. \<open>shortest\<close> tries
  \<open>k = 1, 2, \<dots>\<close> with the two \<open>k\<close>-digit neighbours of \<open>x\<close>; seventeen digits are enough
  for every double. \<open>format_number\<close> then writes the digits plainly, with a decimal point
  or with an exponent, by the size of \<open>n\<close>.
\<close>

function digits :: "int \<Rightarrow> string" where
  "digits n =
     (if n < 10 then [''0123456789'' ! nat n]
      else digits (n div 10) @ [''0123456789'' ! nat (n mod 10)])"
  by pat_completeness auto
termination
  by (relation "measure nat") auto

declare digits.simps [simp del]

function decimal_length :: "int \<Rightarrow> int" where
  "decimal_length n = (if n \<le> 0 then 0 else 1 + decimal_length (n div 10))"
  by pat_completeness auto
termination
  by (relation "measure nat") auto

declare decimal_length.simps [simp del]

definition pow10 :: "int \<Rightarrow> rat" where
  "pow10 e = (if 0 \<le> e then 10 ^ nat e else 1 / 10 ^ nat (- e))"

definition decimal_exponent :: "rat \<Rightarrow> int" where
  "decimal_exponent x =
     (if 1 \<le> x then decimal_length \<lfloor>x\<rfloor> else 1 - decimal_length (\<lceil>1 / x\<rceil> - 1))"

fun shortest :: "nat \<Rightarrow> int \<Rightarrow> rat \<Rightarrow> int \<Rightarrow> int \<times> int" where
  "shortest 0 k x n = (round_half_even (x / pow10 (n - k)), n)"
| "shortest (Suc fuel) k x n =
     (let scale = pow10 (n - k);
          lo = \<lfloor>x / scale\<rfloor>;
          hi = lo + 1;
          lo_fits = (nearest_double (of_int lo * scale) = x);
          hi_fits = (nearest_double (of_int hi * scale) = x);
          lo_nearer = (x - of_int lo * scale < of_int hi * scale - x
                       \<or> (x - of_int lo * scale = of_int hi * scale - x \<and> even lo))
      in if lo_fits \<and> (\<not> hi_fits \<or> lo_nearer) then (lo, n)
         else if hi_fits then (if of_int hi = pow10 k then (1, n + 1) else (hi, n))
         else shortest fuel (k + 1) x n)"

declare shortest.simps [simp del]

definition format_number :: "int \<Rightarrow> int \<Rightarrow> string" where
  "format_number s n =
     (let ds = digits s; k = int (length ds)
      in if k \<le> n \<and> n \<le> 21 then ds @ replicate (nat (n - k)) (CHR ''0'')
         else if 0 < n \<and> n \<le> 21 then take (nat n) ds @ ''.'' @ drop (nat n) ds
         else if - 6 < n \<and> n \<le> 0 then ''0.'' @ replicate (nat (- n)) (CHR ''0'') @ ds
         else (if k = 1 then ds else take 1 ds @ ''.'' @ drop 1 ds)
              @ ''e'' @ (if n - 1 < 0 then ''-'' else ''+'') @ digits \<bar>n - 1\<bar>)"

definition number_to_string :: "js_number \<Rightarrow> string" where
  "number_to_string v =
     (case v of
        NaN \<Rightarrow> ''NaN''
      | Infinity negative \<Rightarrow> (if negative then ''-Infinity'' else ''Infinity'')
      | Finite q \<Rightarrow>
          (case to_double q of
             Finite x \<Rightarrow>
               if x = 0 then ''0''
               else (if x < 0 then ''-'' else [])
                    @ (case shortest 17 1 \<bar>x\<bar> (decimal_exponent \<bar>x\<bar>) of
                         (s, n) \<Rightarrow> format_number s n)
           | Infinity negative \<Rightarrow> (if negative then ''-Infinity'' else ''Infinity'')
           | NaN \<Rightarrow> ''NaN''))"

text \<open>
  \<^verbatim>\<open>ToBoolean\<close>: the values that \<^verbatim>\<open>||\<close> passes over are the falsy ones. A number is
  falsy when the double it stands for is zero.
\<close>

fun truthy :: "json \<Rightarrow> bool" where
  "truthy JNull = False"
| "truthy (JBool b) = b"
| "truthy (JNumber q) = (to_double q \<noteq> Finite 0)"
| "truthy (JString s) = (s \<noteq> [])"
| "truthy (JArray xs) = True"
| "truthy (JObject kvs) = True"

text \<open>
  \<^verbatim>\<open>a || b\<close> where \<^verbatim>\<open>a\<close> is the result of a property read: \<open>None\<close> is
  \<^verbatim>\<open>undefined\<close>, which is falsy.
\<close>

definition logical_or :: "json option \<Rightarrow> json \<Rightarrow> json" where
  "logical_or a b = (case a of None \<Rightarrow> b | Some v \<Rightarrow> if truthy v then v else b)"

text \<open>
  The property read \<^verbatim>\<open>error.detail\<close>. Reading a property of \<^verbatim>\<open>null\<close> throws a
  TypeError (the message is the engine's; V8's is used). An object yields its own
  property or \<^verbatim>\<open>undefined\<close>; arrays, strings, numbers and booleans have no property
  of that name.
\<close>

definition detail_of :: "json \<Rightarrow> js_error + json option" where
  "detail_of v =
     (case v of
        JNull \<Rightarrow> Inl (new_TypeError ''Cannot read properties of null (reading 'detail')'')
      | JObject kvs \<Rightarrow> Inr (map_of kvs ''detail'')
      | _ \<Rightarrow> Inr None)"

text \<open>
  \<^verbatim>\<open>ToString\<close>, which \<^verbatim>\<open>new Error(v)\<close> applies to its argument. An array joins the
  texts of its elements with commas, \<^verbatim>\<open>null\<close> elements giving the empty text. A decoded
  object has no callable property, so one with an own \<^verbatim>\<open>toString\<close> property cannot
  be converted and the conversion throws; any other object is \<^verbatim>\<open>[object Object]\<close>.
\<close>

fun to_string :: "json \<Rightarrow> js_error + string"
  and join :: "json list \<Rightarrow> js_error + string" where
  "to_string JNull = Inr ''null''"
| "to_string (JBool b) = Inr (if b then ''true'' else ''false'')"
| "to_string (JNumber q) = Inr (number_to_string (Finite q))"
| "to_string (JString s) = Inr s"
| "to_string (JArray xs) = join xs"
| "to_string (JObject kvs) =
     (if ''toString'' \<in> fst ` set kvs
      then Inl (new_TypeError ''Cannot convert object to primitive value'')
      else Inr ''[object Object]'')"
| "join [] = Inr ''''"
| "join [x] = (if x = JNull then Inr '''' else to_string x)"
| "join (x # y # ys) =
     (case (if x = JNull then Inr '''' else to_string x) of
        Inl e \<Rightarrow> Inl e
      | Inr s \<Rightarrow> (case join (y # ys) of Inl e \<Rightarrow> Inl e | Inr t \<Rightarrow> Inr (s @ '','' @ t)))"

text \<open>\<^verbatim>\<open>throw new Error(v)\<close>: the error thrown is the new one, or the conversion's.\<close>

definition throw_new_Error :: "json \<Rightarrow> js_error + 'a" where
  "throw_new_Error v = (case to_string v of Inl e \<Rightarrow> Inl e | Inr msg \<Rightarrow> Inl (new_Error msg))"

text \<open>
  The second argument of \<^verbatim>\<open>fetch\<close>, also the \<^verbatim>\<open>options\<close> of the generic helper: an
  object whose properties may be absent. A header object is the list of its properties
  in insertion order. \<open>'f\<close> is the type of files.
\<close>

datatype 'f body_init = FormData "(string \<times> 'f) list" | TextBody string

record 'f options =
  "method" :: "string option"
  headers :: "(string \<times> string) list option"
  body :: "'f body_init option"

record 'f request =
  url :: string
  init :: "'f options"

text \<open>
  A response: its status code and what \<^verbatim>\<open>response.json()\<close> settles to, the decoded body
  or the error it rejects with. \<^verbatim>\<open>response.ok\<close> is true for the statuses 200 to 299
  (Fetch standard).
\<close>

record response =
  status :: nat
  json_body :: "js_error + json"

definition ok :: "response \<Rightarrow> bool" where
  "ok r = (200 \<le> status r \<and> status r \<le> 299)"

text \<open>A request without a \<^verbatim>\<open>method\<close> is sent as a GET (Fetch standard).\<close>

definition request_method :: "'f request \<Rightarrow> string" where
  "request_method r = (case method (init r) of None \<Rightarrow> ''GET'' | Some m \<Rightarrow> m)"

definition header_of :: "'f request \<Rightarrow> string \<Rightarrow> string option" where
  "header_of r name = (case headers (init r) of None \<Rightarrow> None | Some h \<Rightarrow> map_of h name)"

text \<open>
  Object spread into a literal: \<^verbatim>\<open>{...obj, ...src}\<close> copies the properties of
  \<^verbatim>\<open>src\<close> in order over those of \<^verbatim>\<open>obj\<close>; a property already there keeps its place
  and takes the new value. Spreading \<^verbatim>\<open>undefined\<close> copies nothing.
\<close>

definition spread :: "(string \<times> string) list \<Rightarrow> (string \<times> string) list option \<Rightarrow> (string \<times> string) list" where
  "spread obj src =
     (case src of None \<Rightarrow> obj | Some ps \<Rightarrow> fold (\<lambda>(k, v). AList.update k v) ps obj)"

section \<open>The client and the world it acts on\<close>

text \<open>The class \<^verbatim>\<open>EchosenseAPI\<close>: its constructor sets its only field.\<close>

record EchosenseAPI =
  baseUrl :: string

definition API_BASE_URL :: string where
  "API_BASE_URL = ''http://localhost:8000''"

definition new_EchosenseAPI :: "string option \<Rightarrow> EchosenseAPI" where
  "new_EchosenseAPI arg = \<lparr>baseUrl = (case arg of None \<Rightarrow> API_BASE_URL | Some b \<Rightarrow> b)\<rparr>"

text \<open>
  What a method can read and change: the client object, the requests sent so far and
  the lines written to the console, each the label and the error logged with it.
\<close>

record 'f state =
  client :: EchosenseAPI
  requests :: "'f request list"
  console :: "(string \<times> js_error) list"

definition initial_state :: "EchosenseAPI \<Rightarrow> 'f state" where
  "initial_state api = \<lparr>client = api, requests = [], console = []\<rparr>"

text \<open>
  The network answers a request with a response or with the error \<^verbatim>\<open>fetch\<close> rejects
  with. \<^verbatim>\<open>fetch\<close> sends the request and yields the answer.
\<close>

type_synonym 'f network = "'f request \<Rightarrow> js_error + response"

definition fetch :: "'f network \<Rightarrow> 'f request \<Rightarrow> 'f state \<Rightarrow> (js_error + response) \<times> 'f state" where
  "fetch net req s = (net req, s\<lparr>requests := requests s @ [req]\<rparr>)"

definition console_error :: "string \<Rightarrow> js_error \<Rightarrow> 'f state \<Rightarrow> 'f state" where
  "console_error label e s = s\<lparr>console := console s @ [(label, e)]\<rparr>"

text \<open>The network that gives every request the same answer.\<close>

definition always :: "js_error + response \<Rightarrow> 'f network" where
  "always answer req = answer"

section \<open>The methods\<close>

text \<open>
  \<^verbatim>\<open>_fetch(endpoint, options = {})\<close>, the generic helper, here \<open>api_fetch\<close> since a
  name cannot begin with an underscore. An absent argument is the empty object. The
  result is the value returned (\<open>Inr\<close>) or the error thrown (\<open>Inl\<close>); the \<^verbatim>\<open>catch\<close>
  block logs the error and throws it again.
\<close>

definition api_fetch ::
  "'f network \<Rightarrow> string \<Rightarrow> 'f options option \<Rightarrow> 'f state \<Rightarrow> (js_error + json) \<times> 'f state" where
  "api_fetch net endpoint options_arg s =
     (let options = (case options_arg of
                       None \<Rightarrow> \<lparr>method = None, headers = None, body = None\<rparr>
                     | Some opts \<Rightarrow> opts);
          (outcome, s1) =
            fetch net
              \<lparr>url = baseUrl (client s) @ endpoint,
               init = options\<lparr>headers :=
                 Some (spread [(''Content-Type'', ''application/json'')] (headers options))\<rparr>\<rparr> s;
          attempt =
            (case outcome of
               Inl rejection \<Rightarrow> Inl rejection
             | Inr response \<Rightarrow>
                 if \<not> ok response then
                   (let error = (case json_body response of
                                   Inl _ \<Rightarrow> JObject [(''detail'', JString ''Unknown error'')]
                                 | Inr v \<Rightarrow> v)
                    in case detail_of error of
                         Inl e \<Rightarrow> Inl e
                       | Inr d \<Rightarrow>
                           throw_new_Error
                             (logical_or d
                                (JString (''HTTP '' @ number_to_string (Finite (of_nat (status response)))))))
                 else json_body response)
      in case attempt of
           Inl error \<Rightarrow> (Inl error, console_error (''API Error ['' @ endpoint @ '']:'') error s1)
         | Inr v \<Rightarrow> (Inr v, s1))"

text \<open>\<^verbatim>\<open>uploadAudio(file)\<close>.\<close>

definition uploadAudio ::
  "'f network \<Rightarrow> 'f \<Rightarrow> 'f state \<Rightarrow> (js_error + json) \<times> 'f state" where
  "uploadAudio net file s =
     (let formData = FormData [(''file'', file)];
          (outcome, s1) =
            fetch net
              \<lparr>url = baseUrl (client s) @ ''/api/upload/audio'',
               init = \<lparr>method = Some ''POST'', headers = None, body = Some formData\<rparr>\<rparr> s;
          attempt =
            (case outcome of
               Inl rejection \<Rightarrow> Inl rejection
             | Inr response \<Rightarrow>
                 if \<not> ok response then
                   (let error = (case json_body response of
                                   Inl _ \<Rightarrow> JObject [(''detail'', JString ''Upload failed'')]
                                 | Inr v \<Rightarrow> v)
                    in case detail_of error of
                         Inl e \<Rightarrow> Inl e
                       | Inr d \<Rightarrow>
                           throw_new_Error
                             (logical_or d
                                (JString (''HTTP '' @ number_to_string (Finite (of_nat (status response)))))))
                 else json_body response)
      in case attempt of
           Inl error \<Rightarrow> (Inl error, console_error ''Upload Error:'' error s1)
         | Inr v \<Rightarrow> (Inr v, s1))"

text \<open>The reads by call id.\<close>

definition getProcessingStatus ::
  "'f network \<Rightarrow> string \<Rightarrow> 'f state \<Rightarrow> (js_error + json) \<times> 'f state" where
  "getProcessingStatus net callId s = api_fetch net (''/api/processing/status/'' @ callId) None s"

definition getTranscript ::
  "'f network \<Rightarrow> string \<Rightarrow> 'f state \<Rightarrow> (js_error + json) \<times> 'f state" where
  "getTranscript net callId s = api_fetch net (''/api/processing/transcript/'' @ callId) None s"

definition getQualityScore ::
  "'f network \<Rightarrow> string \<Rightarrow> 'f state \<Rightarrow> (js_error + json) \<times> 'f state" where
  "getQualityScore net callId s = api_fetch net (''/api/processing/quality/'' @ callId) None s"

definition getComplianceFlags ::
  "'f network \<Rightarrow> string \<Rightarrow> 'f state \<Rightarrow> (js_error + json) \<times> 'f state" where
  "getComplianceFlags net callId s = api_fetch net (''/api/processing/compliance/'' @ callId) None s"

definition getFullReport ::
  "'f network \<Rightarrow> string \<Rightarrow> 'f state \<Rightarrow> (js_error + json) \<times> 'f state" where
  "getFullReport net callId s = api_fetch net (''/api/processing/full-report/'' @ callId) None s"

text \<open>
  The reads with a numeric parameter, a Number: an absent argument (\<open>None\<close>) takes the
  default of the parameter list.
\<close>

definition getDashboardStats ::
  "'f network \<Rightarrow> js_number option \<Rightarrow> 'f state \<Rightarrow> (js_error + json) \<times> 'f state" where
  "getDashboardStats net days_arg s =
     (let days = (case days_arg of None \<Rightarrow> Finite 7 | Some d \<Rightarrow> d)
      in api_fetch net (''/api/analytics/dashboard?days='' @ number_to_string days) None s)"

definition getRecentCalls ::
  "'f network \<Rightarrow> js_number option \<Rightarrow> 'f state \<Rightarrow> (js_error + json) \<times> 'f state" where
  "getRecentCalls net limit_arg s =
     (let limit = (case limit_arg of None \<Rightarrow> Finite 10 | Some l \<Rightarrow> l)
      in api_fetch net (''/api/analytics/recent-calls?limit='' @ number_to_string limit) None s)"

definition getQualityTrends ::
  "'f network \<Rightarrow> js_number option \<Rightarrow> 'f state \<Rightarrow> (js_error + json) \<times> 'f state" where
  "getQualityTrends net days_arg s =
     (let days = (case days_arg of None \<Rightarrow> Finite 30 | Some d \<Rightarrow> d)
      in api_fetch net (''/api/analytics/quality-trends?days='' @ number_to_string days) None s)"

definition deleteCall ::
  "'f network \<Rightarrow> string \<Rightarrow> 'f state \<Rightarrow> (js_error + json) \<times> 'f state" where
  "deleteCall net callId s =
     api_fetch net (''/api/calls/'' @ callId)
       (Some \<lparr>method = Some ''DELETE'', headers = None, body = None\<rparr>) s"

definition getComplianceSummary ::
  "'f network \<Rightarrow> js_number option \<Rightarrow> 'f state \<Rightarrow> (js_error + json) \<times> 'f state" where
  "getComplianceSummary net days_arg s =
     (let days = (case days_arg of None \<Rightarrow> Finite 7 | Some d \<Rightarrow> d)
      in api_fetch net (''/api/analytics/compliance-summary?days='' @ number_to_string days) None s)"

text \<open>
  The public methods that go through the generic helper, each with any arguments: the
  operations a caller has, beside the upload.
\<close>

inductive generic_operation ::
  "'f network \<Rightarrow> ('f state \<Rightarrow> (js_error + json) \<times> 'f state) \<Rightarrow> bool"
  for net :: "'f network" where
  processing_status: "generic_operation net (getProcessingStatus net callId)"
| transcript: "generic_operation net (getTranscript net callId)"
| quality_score: "generic_operation net (getQualityScore net callId)"
| compliance_flags: "generic_operation net (getComplianceFlags net callId)"
| full_report: "generic_operation net (getFullReport net callId)"
| dashboard_stats: "generic_operation net (getDashboardStats net days)"
| recent_calls: "generic_operation net (getRecentCalls net limit)"
| quality_trends: "generic_operation net (getQualityTrends net days)"
| delete_call: "generic_operation net (deleteCall net callId)"
| compliance_summary: "generic_operation net (getComplianceSummary net days)"

text \<open>
  Every operation of the client: the upload, the ten methods above, and the generic
  helper itself, which the class does not hide.
\<close>

inductive operation ::
  "'f network \<Rightarrow> ('f state \<Rightarrow> (js_error + json) \<times> 'f state) \<Rightarrow> bool"
  for net :: "'f network" where
  upload: "operation net (uploadAudio net file)"
| generic: "generic_operation net run \<Longrightarrow> operation net run"
| helper: "operation net (api_fetch net endpoint opts)"

text \<open>
  The states a client constructed with the argument \<open>arg\<close> can be in: the one after
  construction, and the one after any operation, whatever the network answers.
\<close>

inductive reachable :: "string option \<Rightarrow> 'f state \<Rightarrow> bool" for arg :: "string option" where
  constructed: "reachable arg (initial_state (new_EchosenseAPI arg))"
| step: "reachable arg s \<Longrightarrow> operation net run \<Longrightarrow> reachable arg (snd (run s))"

text \<open>The message of the error an operation threw, if it threw one.\<close>

definition raised_message :: "js_error + json \<Rightarrow> string option" where
  "raised_message result = (case result of Inl e \<Rightarrow> Some (message e) | Inr _ \<Rightarrow> None)"

section \<open>What one call does\<close>

lemma fst_sum_case:
  "fst (case a of Inl e \<Rightarrow> (Inl e, f e) | Inr v \<Rightarrow> (Inr v, g v)) = a"
  by (cases a) simp_all

lemma snd_sum_case:
  "snd (case a of Inl e \<Rightarrow> (Inl e, f e) | Inr v \<Rightarrow> (Inr v, g)) =
     (case a of Inl e \<Rightarrow> f e | Inr v \<Rightarrow> g)"
  by (cases a) simp_all

text \<open>The helper sends one request, the one written out here.\<close>

lemma api_fetch_requests:
  "requests (snd (api_fetch net endpoint opts s)) =
     requests s @
       [\<lparr>url = baseUrl (client s) @ endpoint,
         init = (case opts of
                   None \<Rightarrow> \<lparr>method = None,
                             headers = Some [(''Content-Type'', ''application/json'')],
                             body = None\<rparr>
                 | Some given \<Rightarrow>
                     given\<lparr>headers :=
                       Some (spread [(''Content-Type'', ''application/json'')] (headers given))\<rparr>)\<rparr>]"
  by (cases opts)
     (simp_all add: api_fetch_def fetch_def console_error_def spread_def Let_def snd_sum_case
           split: sum.split)

lemma api_fetch_client: "client (snd (api_fetch net endpoint opts s)) = client s"
  by (simp add: api_fetch_def fetch_def console_error_def Let_def snd_sum_case split: sum.split)


text \<open>Its result, by the answer of the network to that request.\<close>

lemma api_fetch_result:
  "fst (api_fetch net endpoint opts s) =
     (case net (last (requests (snd (api_fetch net endpoint opts s)))) of
        Inl rejection \<Rightarrow> Inl rejection
      | Inr r \<Rightarrow>
          if ok r then json_body r
          else (case json_body r of
                  Inl pe \<Rightarrow> Inl (new_Error ''Unknown error'')
                | Inr v \<Rightarrow>
                    (case detail_of v of
                       Inl e \<Rightarrow> Inl e
                     | Inr d \<Rightarrow>
                         throw_new_Error
                           (logical_or d
                              (JString (''HTTP '' @ number_to_string (Finite (of_nat (status r)))))))))"
proof -
  have substitute: "detail_of (JObject [(''detail'', JString ''Unknown error'')]) =
      Inr (Some (JString ''Unknown error''))"
    by (simp add: detail_of_def)
  have thrown: "throw_new_Error (logical_or (Some (JString ''Unknown error'')) b) =
      Inl (new_Error ''Unknown error'')" for b
    by (simp add: logical_or_def throw_new_Error_def)
  show ?thesis
    unfolding api_fetch_requests
    by (cases opts)
       (simp_all add: api_fetch_def fetch_def Let_def spread_def fst_sum_case substitute thrown
          split: sum.split)
qed

text \<open>The same four facts for the upload.\<close>

lemma uploadAudio_requests:
  "requests (snd (uploadAudio net file s)) =
     requests s @
       [\<lparr>url = baseUrl (client s) @ ''/api/upload/audio'',
         init = \<lparr>method = Some ''POST'', headers = None,
                 body = Some (FormData [(''file'', file)])\<rparr>\<rparr>]"
  by (simp add: uploadAudio_def fetch_def console_error_def Let_def snd_sum_case
           split: sum.split)

lemma uploadAudio_client: "client (snd (uploadAudio net file s)) = client s"
  by (simp add: uploadAudio_def fetch_def console_error_def Let_def snd_sum_case split: sum.split)


lemma uploadAudio_result:
  "fst (uploadAudio net file s) =
     (case net (last (requests (snd (uploadAudio net file s)))) of
        Inl rejection \<Rightarrow> Inl rejection
      | Inr r \<Rightarrow>
          if ok r then json_body r
          else (case json_body r of
                  Inl pe \<Rightarrow> Inl (new_Error ''Upload failed'')
                | Inr v \<Rightarrow>
                    (case detail_of v of
                       Inl e \<Rightarrow> Inl e
                     | Inr d \<Rightarrow>
                         throw_new_Error
                           (logical_or d
                              (JString (''HTTP '' @ number_to_string (Finite (of_nat (status r)))))))))"
proof -
  have substitute: "detail_of (JObject [(''detail'', JString ''Upload failed'')]) =
      Inr (Some (JString ''Upload failed''))"
    by (simp add: detail_of_def)
  have thrown: "throw_new_Error (logical_or (Some (JString ''Upload failed'')) b) =
      Inl (new_Error ''Upload failed'')" for b
    by (simp add: logical_or_def throw_new_Error_def)
  show ?thesis
    unfolding uploadAudio_requests
    by (simp add: uploadAudio_def fetch_def Let_def fst_sum_case substitute thrown
          split: sum.split)
qed

text \<open>
  Each of the ten methods is the helper at an endpoint, with options that carry no
  headers.
\<close>

lemma generic_operation_helper:
  assumes "generic_operation net run"
  obtains endpoint opts where "run = api_fetch net endpoint opts"
    and "opts = None \<or> opts = Some \<lparr>method = Some ''DELETE'', headers = None, body = None\<rparr>"
  using assms
proof cases
  case (processing_status callId)
  show ?thesis
    by (rule that [of "''/api/processing/status/'' @ callId" None])
       (simp_all add: processing_status fun_eq_iff getProcessingStatus_def)
next
  case (transcript callId)
  show ?thesis
    by (rule that [of "''/api/processing/transcript/'' @ callId" None])
       (simp_all add: transcript fun_eq_iff getTranscript_def)
next
  case (quality_score callId)
  show ?thesis
    by (rule that [of "''/api/processing/quality/'' @ callId" None])
       (simp_all add: quality_score fun_eq_iff getQualityScore_def)
next
  case (compliance_flags callId)
  show ?thesis
    by (rule that [of "''/api/processing/compliance/'' @ callId" None])
       (simp_all add: compliance_flags fun_eq_iff getComplianceFlags_def)
next
  case (full_report callId)
  show ?thesis
    by (rule that [of "''/api/processing/full-report/'' @ callId" None])
       (simp_all add: full_report fun_eq_iff getFullReport_def)
next
  case (dashboard_stats days)
  show ?thesis
    by (rule that [of "''/api/analytics/dashboard?days='' @
          number_to_string (case days of None \<Rightarrow> Finite 7 | Some d \<Rightarrow> d)" None])
       (simp_all add: dashboard_stats fun_eq_iff getDashboardStats_def)
next
  case (recent_calls limit)
  show ?thesis
    by (rule that [of "''/api/analytics/recent-calls?limit='' @
          number_to_string (case limit of None \<Rightarrow> Finite 10 | Some l \<Rightarrow> l)" None])
       (simp_all add: recent_calls fun_eq_iff getRecentCalls_def)
next
  case (quality_trends days)
  show ?thesis
    by (rule that [of "''/api/analytics/quality-trends?days='' @
          number_to_string (case days of None \<Rightarrow> Finite 30 | Some d \<Rightarrow> d)" None])
       (simp_all add: quality_trends fun_eq_iff getQualityTrends_def)
next
  case (delete_call callId)
  show ?thesis
    by (rule that [of "''/api/calls/'' @ callId"
          "Some \<lparr>method = Some ''DELETE'', headers = None, body = None\<rparr>"])
       (simp_all add: delete_call fun_eq_iff deleteCall_def)
next
  case (compliance_summary days)
  show ?thesis
    by (rule that [of "''/api/analytics/compliance-summary?days='' @
          number_to_string (case days of None \<Rightarrow> Finite 7 | Some d \<Rightarrow> d)" None])
       (simp_all add: compliance_summary fun_eq_iff getComplianceSummary_def)
qed

text \<open>So an operation is the upload or the helper.\<close>

lemma operation_cases:
  assumes "operation net run"
  obtains (is_upload) f where "run = uploadAudio net f"
  | (is_helper) endpoint opts where "run = api_fetch net endpoint opts"
  using assms
proof cases
  case (upload f)
  then show ?thesis by (rule is_upload)
next
  case generic
  then show ?thesis by (elim generic_operation_helper) (rule is_helper)
next
  case (helper endpoint opts)
  then show ?thesis by (rule is_helper)
qed

text \<open>The texts of the numbers used below, computed from the definitions.\<close>

lemma text_of_7: "number_to_string (Finite 7) = ''7''"
  by code_simp

lemma text_of_10: "number_to_string (Finite 10) = ''10''"
  by code_simp

lemma text_of_30: "number_to_string (Finite 30) = ''30''"
  by code_simp


lemma text_of_503: "number_to_string (Finite 503) = ''503''"
  by code_simp

lemma text_of_minus_5: "number_to_string (Finite (- 5)) = ''-5''"
  by code_simp

lemma text_of_three_halves: "number_to_string (Finite (3 / 2)) = ''1.5''"
  by code_simp

lemma text_of_2_to_64: "number_to_string (Finite (2 ^ 64)) = ''18446744073709552000''"
  by code_simp

lemma text_of_10_to_21: "number_to_string (Finite (10 ^ 21)) = ''1e+21''"
  by code_simp

lemma text_of_NaN: "number_to_string NaN = ''NaN''"
  by (simp add: number_to_string_def)


lemma operation_ok:
  assumes "operation net run" and "net (last (requests (snd (run s)))) = Inr r" and "ok r"
  shows "fst (run s) = json_body r"
  using assms(1)
proof (cases rule: operation_cases)
  case (is_upload f)
  with assms(2,3) show ?thesis by (simp add: uploadAudio_result)
next
  case (is_helper endpoint opts)
  with assms(2,3) show ?thesis by (simp add: api_fetch_result)
qed


section \<open>Error messages\<close>




text \<open>
  Claim C2, as the code has it. Let the generic helper receive a response with a status
  outside 200 to 299. If the body does not decode, the error raised has the message
  \<^verbatim>\<open>Unknown error\<close>. If the body decodes to a value other than \<^verbatim>\<open>null\<close> that has no
  \<^verbatim>\<open>detail\<close> property, the message is \<^verbatim>\<open>HTTP\<close> followed by the status.
\<close>

theorem status_message:
  assumes "net (last (requests (snd (api_fetch net endpoint opts s)))) = Inr r"
    and "\<not> ok r"
  shows "(\<forall>pe. json_body r = Inl pe \<longrightarrow>
            fst (api_fetch net endpoint opts s) = Inl (new_Error ''Unknown error''))
       \<and> (\<forall>v. json_body r = Inr v
              \<and> (case v of JNull \<Rightarrow> False
                          | JObject kvs \<Rightarrow> ''detail'' \<notin> fst ` set kvs
                          | _ \<Rightarrow> True) \<longrightarrow>
            fst (api_fetch net endpoint opts s) =
              Inl (new_Error (''HTTP '' @ number_to_string (Finite (of_nat (status r))))))"
proof (intro conjI allI impI)
  fix pe
  assume "json_body r = Inl pe"
  with assms show "fst (api_fetch net endpoint opts s) = Inl (new_Error ''Unknown error'')"
    by (simp add: api_fetch_result)
next
  fix v
  assume v: "json_body r = Inr v
              \<and> (case v of JNull \<Rightarrow> False
                          | JObject kvs \<Rightarrow> ''detail'' \<notin> fst ` set kvs
                          | _ \<Rightarrow> True)"
  then have "detail_of v = Inr None"
    by (cases v) (simp_all add: detail_of_def map_of_eq_None_iff)
  with assms v show "fst (api_fetch net endpoint opts s) =
              Inl (new_Error (''HTTP '' @ number_to_string (Finite (of_nat (status r)))))"
    by (simp add: api_fetch_result logical_or_def throw_new_Error_def)
qed

theorem status_message_witness:
  "fst (api_fetch
      (always (Inr \<lparr>status = 500,
         json_body = Inl (JsError ''SyntaxError'' ''Unexpected token < in JSON at position 0'')\<rparr>))
      ''/api/calls/abc123'' None (initial_state (new_EchosenseAPI None) :: unit state))
   = Inl (new_Error ''Unknown error'')
   \<and> fst (api_fetch
      (always (Inr \<lparr>status = 503, json_body = Inr (JObject [(''error'', JString ''busy'')])\<rparr>))
      ''/api/calls/abc123'' None (initial_state (new_EchosenseAPI None) :: unit state))
   = Inl (new_Error ''HTTP 503'')"
proof -
  let ?s = "initial_state (new_EchosenseAPI None) :: unit state"
  let ?r1 = "\<lparr>status = 500,
         json_body = Inl (JsError ''SyntaxError'' ''Unexpected token < in JSON at position 0'')\<rparr>"
  let ?r2 = "\<lparr>status = 503, json_body = Inr (JObject [(''error'', JString ''busy'')])\<rparr>"
  have a1: "always (Inr ?r1) (last (requests (snd (api_fetch (always (Inr ?r1))
      ''/api/calls/abc123'' None ?s)))) = Inr ?r1"
    by (simp add: always_def)
  have a2: "always (Inr ?r2) (last (requests (snd (api_fetch (always (Inr ?r2))
      ''/api/calls/abc123'' None ?s)))) = Inr ?r2"
    by (simp add: always_def)
  have f1: "\<not> ok ?r1" and f2: "\<not> ok ?r2"
    by (simp_all add: ok_def)
  from status_message [of "always (Inr ?r1)" "''/api/calls/abc123''" None ?s ?r1, OF a1 f1]
    status_message [of "always (Inr ?r2)" "''/api/calls/abc123''" None ?s ?r2, OF a2 f2]
  show ?thesis by (simp add: text_of_503)
qed

text \<open>
  The claim as first stated gives an undecodable body the message \<^verbatim>\<open>HTTP 500\<close>; the
  helper raises \<^verbatim>\<open>Unknown error\<close>.
\<close>

theorem status_message_counterexample:
  "raised_message
     (fst (api_fetch
        (always (Inr \<lparr>status = 500,
           json_body = Inl (JsError ''SyntaxError'' ''Unexpected token < in JSON at position 0'')\<rparr>))
        ''/api/calls/abc123'' None (initial_state (new_EchosenseAPI None) :: unit state)))
   = Some ''Unknown error''
   \<and> raised_message
     (fst (api_fetch
        (always (Inr \<lparr>status = 500,
           json_body = Inl (JsError ''SyntaxError'' ''Unexpected token < in JSON at position 0'')\<rparr>))
        ''/api/calls/abc123'' None (initial_state (new_EchosenseAPI None) :: unit state)))
   \<noteq> Some ''HTTP 500''"
  by (simp add: api_fetch_result api_fetch_requests always_def ok_def
        raised_message_def new_Error_def)

section \<open>Successful responses\<close>

text \<open>
  Claim C3. When the response to the request of an operation has a status from 200 to
  299 and its body decodes to \<open>j\<close>, the operation returns \<open>j\<close> itself.
\<close>

theorem success_body_unchanged:
  assumes "operation net run"
    and "net (last (requests (snd (run s)))) = Inr r"
    and "ok r"
    and "json_body r = Inr j"
  shows "fst (run s) = Inr j"
  using operation_ok [OF assms(1,2,3)] assms(4) by simp

theorem success_body_unchanged_witness:
  "ok \<lparr>status = 200, json_body = Inr (JObject [(''call_id'', JString ''abc123'')])\<rparr>
   \<and> fst (uploadAudio
        (always (Inr \<lparr>status = 200, json_body = Inr (JObject [(''call_id'', JString ''abc123'')])\<rparr>))
        ''recording.wav'' (initial_state (new_EchosenseAPI None)))
     = Inr (JObject [(''call_id'', JString ''abc123'')])"
proof -
  let ?r = "\<lparr>status = 200, json_body = Inr (JObject [(''call_id'', JString ''abc123'')])\<rparr>"
  let ?net = "always (Inr ?r) :: string network"
  let ?s = "initial_state (new_EchosenseAPI None) :: string state"
  have op: "operation ?net (uploadAudio ?net ''recording.wav'')"
    by (rule operation.upload)
  have answer: "?net (last (requests (snd (uploadAudio ?net ''recording.wav'' ?s)))) = Inr ?r"
    by (simp add: always_def)
  have success: "ok ?r"
    by (simp add: ok_def)
  from success_body_unchanged [OF op answer success] success
  show ?thesis by simp
qed

section \<open>The upload\<close>

text \<open>
  Claim C4, as the code has it. Give the upload and the generic helper the same answer
  of the network. When the answer is a rejection, a response with a status from 200 to
  299, or a response with another status whose body decodes, the two have the same
  result: the same value returned or the same error raised. When the answer is a
  response with another status whose body does not decode, the upload raises an error
  with the message \<^verbatim>\<open>Upload failed\<close> and the helper one with the message
  \<^verbatim>\<open>Unknown error\<close>.
\<close>

theorem upload_same_handling:
  "(if (case answer of Inl rejection \<Rightarrow> False | Inr r \<Rightarrow> \<not> ok r \<and> isl (json_body r))
    then fst (uploadAudio (always answer) file s) = Inl (new_Error ''Upload failed'')
       \<and> fst (api_fetch (always answer) endpoint opts s') = Inl (new_Error ''Unknown error'')
    else fst (uploadAudio (always answer) file s) = fst (api_fetch (always answer) endpoint opts s'))"
proof (cases answer)
  case (Inl rejection)
  then show ?thesis
    by (simp add: uploadAudio_result api_fetch_result always_def)
next
  case (Inr r)
  then show ?thesis
    by (cases "json_body r") (simp_all add: uploadAudio_result api_fetch_result always_def)
qed

theorem upload_same_handling_witness:
  "fst (uploadAudio
      (always (Inr \<lparr>status = 422,
         json_body = Inr (JObject [(''detail'', JString ''Unsupported format'')])\<rparr>))
      ''recording.txt'' (initial_state (new_EchosenseAPI None)))
   = fst (api_fetch
      (always (Inr \<lparr>status = 422,
         json_body = Inr (JObject [(''detail'', JString ''Unsupported format'')])\<rparr>))
      ''/api/calls/abc123'' None (initial_state (new_EchosenseAPI None) :: string state))
   \<and> fst (uploadAudio
      (always (Inr \<lparr>status = 502, json_body = Inl (JsError ''SyntaxError'' ''Unexpected token'')\<rparr>))
      ''recording.wav'' (initial_state (new_EchosenseAPI None)))
   = Inl (new_Error ''Upload failed'')"
  using
    upload_same_handling [of "Inr \<lparr>status = 422,
         json_body = Inr (JObject [(''detail'', JString ''Unsupported format'')])\<rparr>"
      "''recording.txt''" "initial_state (new_EchosenseAPI None)"
      "''/api/calls/abc123''" None "initial_state (new_EchosenseAPI None) :: string state"]
    upload_same_handling [of "Inr \<lparr>status = 502,
         json_body = Inl (JsError ''SyntaxError'' ''Unexpected token'')\<rparr>"
      "''recording.wav''" "initial_state (new_EchosenseAPI None)"
      "''/api/calls/abc123''" None "initial_state (new_EchosenseAPI None) :: string state"]
  by (simp add: ok_def)

text \<open>
  The claim as first stated has both substitute \<^verbatim>\<open>Unknown error\<close>; on a 502 with an
  undecodable body the two messages differ.
\<close>

theorem upload_same_handling_counterexample:
  "raised_message (fst (uploadAudio
      (always (Inr \<lparr>status = 502, json_body = Inl (JsError ''SyntaxError'' ''Unexpected token'')\<rparr>))
      ''recording.wav'' (initial_state (new_EchosenseAPI None))))
   = Some ''Upload failed''
   \<and> raised_message (fst (api_fetch
      (always (Inr \<lparr>status = 502, json_body = Inl (JsError ''SyntaxError'' ''Unexpected token'')\<rparr>))
      ''/api/upload/audio'' None (initial_state (new_EchosenseAPI None) :: string state)))
   = Some ''Unknown error''
   \<and> fst (uploadAudio
      (always (Inr \<lparr>status = 502, json_body = Inl (JsError ''SyntaxError'' ''Unexpected token'')\<rparr>))
      ''recording.wav'' (initial_state (new_EchosenseAPI None)))
   \<noteq> fst (api_fetch
      (always (Inr \<lparr>status = 502, json_body = Inl (JsError ''SyntaxError'' ''Unexpected token'')\<rparr>))
      ''/api/upload/audio'' None (initial_state (new_EchosenseAPI None) :: string state))"
  by (simp add: uploadAudio_result api_fetch_result always_def ok_def raised_message_def
        new_Error_def)

text \<open>
  Claim C5. For every file, the upload sends exactly one request: a POST to the base URL
  followed by \<^verbatim>\<open>/api/upload/audio\<close>, whose body is a form with the single field
  \<^verbatim>\<open>file\<close> holding that file, and which carries no headers of the client's, so no
  \<^verbatim>\<open>Content-Type\<close>.
\<close>

theorem upload_request:
  "requests (snd (uploadAudio net file s)) =
     requests s @
       [\<lparr>url = baseUrl (client s) @ ''/api/upload/audio'',
         init = \<lparr>method = Some ''POST'', headers = None,
                 body = Some (FormData [(''file'', file)])\<rparr>\<rparr>]
   \<and> request_method (last (requests (snd (uploadAudio net file s)))) = ''POST''
   \<and> header_of (last (requests (snd (uploadAudio net file s)))) ''Content-Type'' = None"
  by (simp add: uploadAudio_requests request_method_def header_of_def)

theorem upload_request_witness:
  "requests (snd (uploadAudio (always (Inl (JsError ''TypeError'' ''Failed to fetch'')))
      ''recording.wav'' (initial_state (new_EchosenseAPI (Some ''https://echo.example'')))))
   = [\<lparr>url = ''https://echo.example/api/upload/audio'',
        init = \<lparr>method = Some ''POST'', headers = None,
                body = Some (FormData [(''file'', ''recording.wav'')])\<rparr>\<rparr>]"
  using upload_request [of "always (Inl (JsError ''TypeError'' ''Failed to fetch''))"
      "''recording.wav''" "initial_state (new_EchosenseAPI (Some ''https://echo.example''))"]
  by (simp add: initial_state_def new_EchosenseAPI_def)

section \<open>The requests of the generic helper\<close>

text \<open>Spreading copies each property of the source; the last one of a name wins.\<close>

lemma map_of_fold_update:
  "map_of (fold (\<lambda>(k, v). AList.update k v) ps obj) = map_of obj ++ map_of (rev ps)"
proof (induction ps arbitrary: obj)
  case Nil
  show ?case by simp
next
  case (Cons p ps)
  obtain k v where p: "p = (k, v)" by (cases p)
  have "map_of (fold (\<lambda>(k, v). AList.update k v) (p # ps) obj) =
      map_of (AList.update k v obj) ++ map_of (rev ps)"
    using Cons.IH [of "AList.update k v obj"] by (simp add: p)
  also have "\<dots> = map_of obj ++ map_of (rev (p # ps))"
    by (simp add: p update_conv')
  finally show ?case .
qed

lemma map_of_spread:
  "map_of (spread obj src) name =
     (case src of
        None \<Rightarrow> map_of obj name
      | Some ps \<Rightarrow> (case map_of (rev ps) name of None \<Rightarrow> map_of obj name | Some v \<Rightarrow> Some v))"
  by (cases src) (simp_all add: spread_def map_of_fold_update map_add_def)

lemma map_of_rev_distinct:
  assumes "distinct (map fst ps)" and "(name, v) \<in> set ps"
  shows "map_of (rev ps) name = Some v"
proof -
  have "distinct (map fst (rev ps))"
    using assms(1) by (simp add: rev_map [symmetric])
  moreover have "(name, v) \<in> set (rev ps)"
    using assms(2) by simp
  ultimately show ?thesis by (rule map_of_is_SomeI)
qed

lemma map_of_rev_absent:
  assumes "name \<notin> fst ` set ps"
  shows "map_of (rev ps) name = None"
  using assms by (simp add: map_of_eq_None_iff)

lemma api_fetch_header:
  "header_of (last (requests (snd (api_fetch net endpoint opts s)))) name =
     (case (case opts of None \<Rightarrow> None | Some given \<Rightarrow> headers given) of
        None \<Rightarrow> map_of [(''Content-Type'', ''application/json'')] name
      | Some ps \<Rightarrow>
          (case map_of (rev ps) name of
             None \<Rightarrow> map_of [(''Content-Type'', ''application/json'')] name
           | Some v \<Rightarrow> Some v))"
  by (cases opts) (simp_all add: api_fetch_requests header_of_def map_of_spread)

text \<open>
  Claim C6, as the code has it. The headers of a request of the generic helper are the
  default \<^verbatim>\<open>Content-Type: application/json\<close> overlaid with the headers of the caller:
  a name the caller does not supply has the default value (none, unless the name is
  \<^verbatim>\<open>Content-Type\<close>), and a name the caller supplies has the caller's value, also
  when the name is \<^verbatim>\<open>Content-Type\<close>. The ten public methods built on the helper supply
  no headers, so each of their requests carries \<^verbatim>\<open>Content-Type: application/json\<close>.
\<close>

theorem content_type_default:
  "((\<forall>given ps. opts = Some given \<and> headers given = Some ps \<longrightarrow> name \<notin> fst ` set ps) \<longrightarrow>
      header_of (last (requests (snd (api_fetch net endpoint opts s)))) name =
        (if name = ''Content-Type'' then Some ''application/json'' else None))
   \<and> (\<forall>given ps v. opts = Some given \<and> headers given = Some ps \<and> distinct (map fst ps)
          \<and> (name, v) \<in> set ps \<longrightarrow>
      header_of (last (requests (snd (api_fetch net endpoint opts s)))) name = Some v)
   \<and> (\<forall>run. generic_operation net run \<longrightarrow>
      header_of (last (requests (snd (run s)))) ''Content-Type'' = Some ''application/json'')"
proof (intro conjI allI impI)
  assume absent: "\<forall>given ps. opts = Some given \<and> headers given = Some ps \<longrightarrow> name \<notin> fst ` set ps"
  show "header_of (last (requests (snd (api_fetch net endpoint opts s)))) name =
        (if name = ''Content-Type'' then Some ''application/json'' else None)"
  proof (cases "case opts of None \<Rightarrow> None | Some given \<Rightarrow> headers given")
    case None
    then show ?thesis by (simp add: api_fetch_header)
  next
    case (Some ps)
    then obtain given where "opts = Some given" "headers given = Some ps"
      by (cases opts) simp_all
    with absent have "name \<notin> fst ` set ps" by blast
    then have "map_of (rev ps) name = None" by (rule map_of_rev_absent)
    with Some show ?thesis by (simp add: api_fetch_header)
  qed
next
  fix given ps v
  assume supplied: "opts = Some given \<and> headers given = Some ps \<and> distinct (map fst ps)
          \<and> (name, v) \<in> set ps"
  then have "map_of (rev ps) name = Some v" by (simp add: map_of_rev_distinct)
  with supplied show "header_of (last (requests (snd (api_fetch net endpoint opts s)))) name = Some v"
    by (simp add: api_fetch_header)
next
  fix run
  assume "generic_operation net run"
  then obtain endpoint' opts' where run: "run = api_fetch net endpoint' opts'"
    and opts': "opts' = None \<or> opts' = Some \<lparr>method = Some ''DELETE'', headers = None, body = None\<rparr>"
    by (rule generic_operation_helper)
  from opts' show "header_of (last (requests (snd (run s)))) ''Content-Type'' = Some ''application/json''"
    by (auto simp add: run api_fetch_header)
qed

theorem content_type_default_witness:
  "header_of (last (requests (snd (api_fetch
       (always (Inl (JsError ''TypeError'' ''Failed to fetch'')))
       ''/api/calls/abc123''
       (Some \<lparr>method = Some ''DELETE'', headers = Some [(''Accept'', ''application/json'')],
               body = None\<rparr>)
       (initial_state (new_EchosenseAPI None) :: unit state))))) ''Content-Type''
     = Some ''application/json''
   \<and> header_of (last (requests (snd (api_fetch
       (always (Inl (JsError ''TypeError'' ''Failed to fetch'')))
       ''/api/calls/abc123''
       (Some \<lparr>method = Some ''DELETE'', headers = Some [(''Accept'', ''application/json'')],
               body = None\<rparr>)
       (initial_state (new_EchosenseAPI None) :: unit state))))) ''Accept''
     = Some ''application/json''
   \<and> header_of (last (requests (snd (getFullReport
       (always (Inl (JsError ''TypeError'' ''Failed to fetch'')))
       ''abc123'' (initial_state (new_EchosenseAPI None) :: unit state))))) ''Content-Type''
     = Some ''application/json''"
proof -
  let ?net = "always (Inl (JsError ''TypeError'' ''Failed to fetch'')) :: unit network"
  let ?s = "initial_state (new_EchosenseAPI None) :: unit state"
  let ?opts = "Some \<lparr>method = Some ''DELETE'', headers = Some [(''Accept'', ''application/json'')],
               body = None :: unit body_init option\<rparr>"
  have op: "generic_operation ?net (getFullReport ?net ''abc123'')"
    by (rule generic_operation.full_report)
  from content_type_default [of ?opts "''Content-Type''" ?net "''/api/calls/abc123''" ?s]
    content_type_default [of ?opts "''Accept''" ?net "''/api/calls/abc123''" ?s]
    content_type_default [of ?opts "''Content-Type''" ?net "''/api/calls/abc123''" ?s]
    op
  show ?thesis by simp
qed

text \<open>
  The claim as first stated has the default win over the caller; a caller that passes
  \<^verbatim>\<open>Content-Type: text/plain\<close> gets that header sent.
\<close>

theorem content_type_default_counterexample:
  "header_of (last (requests (snd (api_fetch
       (always (Inl (JsError ''TypeError'' ''Failed to fetch'')))
       ''/api/calls/abc123''
       (Some \<lparr>method = Some ''DELETE'', headers = Some [(''Content-Type'', ''text/plain'')],
               body = None\<rparr>)
       (initial_state (new_EchosenseAPI None) :: unit state))))) ''Content-Type''
     = Some ''text/plain''
   \<and> header_of (last (requests (snd (api_fetch
       (always (Inl (JsError ''TypeError'' ''Failed to fetch'')))
       ''/api/calls/abc123''
       (Some \<lparr>method = Some ''DELETE'', headers = Some [(''Content-Type'', ''text/plain'')],
               body = None\<rparr>)
       (initial_state (new_EchosenseAPI None) :: unit state))))) ''Content-Type''
     \<noteq> Some ''application/json''"
  by (simp add: api_fetch_requests header_of_def spread_def)

text \<open>
  Claim C7. Called without their argument, the four reads with a numeric parameter send
  one request each, to \<^verbatim>\<open>/api/analytics/dashboard?days=7\<close>,
  \<^verbatim>\<open>/api/analytics/recent-calls?limit=10\<close>, \<^verbatim>\<open>/api/analytics/quality-trends?days=30\<close>
  and \<^verbatim>\<open>/api/analytics/compliance-summary?days=7\<close> under the base URL; the request
  names no method, so it is a GET, and a decoded body of a response with a status from
  200 to 299 is returned as it is.
\<close>

theorem query_defaults:
  "requests (snd (getDashboardStats net None s)) =
     requests s @
       [\<lparr>url = baseUrl (client s) @ ''/api/analytics/dashboard?days=7'',
         init = \<lparr>method = None, headers = Some [(''Content-Type'', ''application/json'')],
                 body = None\<rparr>\<rparr>]
   \<and> requests (snd (getRecentCalls net None s)) =
     requests s @
       [\<lparr>url = baseUrl (client s) @ ''/api/analytics/recent-calls?limit=10'',
         init = \<lparr>method = None, headers = Some [(''Content-Type'', ''application/json'')],
                 body = None\<rparr>\<rparr>]
   \<and> requests (snd (getQualityTrends net None s)) =
     requests s @
       [\<lparr>url = baseUrl (client s) @ ''/api/analytics/quality-trends?days=30'',
         init = \<lparr>method = None, headers = Some [(''Content-Type'', ''application/json'')],
                 body = None\<rparr>\<rparr>]
   \<and> requests (snd (getComplianceSummary net None s)) =
     requests s @
       [\<lparr>url = baseUrl (client s) @ ''/api/analytics/compliance-summary?days=7'',
         init = \<lparr>method = None, headers = Some [(''Content-Type'', ''application/json'')],
                 body = None\<rparr>\<rparr>]
   \<and> (\<forall>run. run \<in> {getDashboardStats net None, getRecentCalls net None,
                    getQualityTrends net None, getComplianceSummary net None} \<longrightarrow>
         request_method (last (requests (snd (run s)))) = ''GET''
         \<and> (\<forall>r j. net (last (requests (snd (run s)))) = Inr r \<and> ok r \<and> json_body r = Inr j \<longrightarrow>
               fst (run s) = Inr j))"
proof (intro conjI allI impI)
  show "requests (snd (getDashboardStats net None s)) =
     requests s @
       [\<lparr>url = baseUrl (client s) @ ''/api/analytics/dashboard?days=7'',
         init = \<lparr>method = None, headers = Some [(''Content-Type'', ''application/json'')],
                 body = None\<rparr>\<rparr>]"
    by (simp add: getDashboardStats_def api_fetch_requests text_of_7)
  show "requests (snd (getRecentCalls net None s)) =
     requests s @
       [\<lparr>url = baseUrl (client s) @ ''/api/analytics/recent-calls?limit=10'',
         init = \<lparr>method = None, headers = Some [(''Content-Type'', ''application/json'')],
                 body = None\<rparr>\<rparr>]"
    by (simp add: getRecentCalls_def api_fetch_requests text_of_10)
  show "requests (snd (getQualityTrends net None s)) =
     requests s @
       [\<lparr>url = baseUrl (client s) @ ''/api/analytics/quality-trends?days=30'',
         init = \<lparr>method = None, headers = Some [(''Content-Type'', ''application/json'')],
                 body = None\<rparr>\<rparr>]"
    by (simp add: getQualityTrends_def api_fetch_requests text_of_30)
  show "requests (snd (getComplianceSummary net None s)) =
     requests s @
       [\<lparr>url = baseUrl (client s) @ ''/api/analytics/compliance-summary?days=7'',
         init = \<lparr>method = None, headers = Some [(''Content-Type'', ''application/json'')],
                 body = None\<rparr>\<rparr>]"
    by (simp add: getComplianceSummary_def api_fetch_requests text_of_7)
next
  fix run
  assume "run \<in> {getDashboardStats net None, getRecentCalls net None,
                    getQualityTrends net None, getComplianceSummary net None}"
  then obtain endpoint where run: "run = api_fetch net endpoint None"
    by (auto simp add: getDashboardStats_def getRecentCalls_def getQualityTrends_def
          getComplianceSummary_def fun_eq_iff)
  show "request_method (last (requests (snd (run s)))) = ''GET''"
    by (simp add: run api_fetch_requests request_method_def)
  fix r j
  assume "net (last (requests (snd (run s)))) = Inr r \<and> ok r \<and> json_body r = Inr j"
  then show "fst (run s) = Inr j"
    by (simp add: run api_fetch_result)
qed

theorem query_defaults_witness:
  "fst (getDashboardStats
      (always (Inr \<lparr>status = 200, json_body = Inr (JObject [(''total_calls'', JNumber 42)])\<rparr>))
      None (initial_state (new_EchosenseAPI None) :: unit state))
   = Inr (JObject [(''total_calls'', JNumber 42)])
   \<and> map url (requests (snd (getDashboardStats
      (always (Inr \<lparr>status = 200, json_body = Inr (JObject [(''total_calls'', JNumber 42)])\<rparr>))
      None (initial_state (new_EchosenseAPI None) :: unit state))))
   = [''http://localhost:8000/api/analytics/dashboard?days=7'']"
  using query_defaults [of
      "always (Inr \<lparr>status = 200, json_body = Inr (JObject [(''total_calls'', JNumber 42)])\<rparr>)"
      "initial_state (new_EchosenseAPI None) :: unit state"]
  by (simp add: always_def ok_def initial_state_def new_EchosenseAPI_def API_BASE_URL_def)

text \<open>
  Claim C10. The URL of every request is the base URL, the path of the method and the
  text of the argument, appended as they are: the call id itself, whatever characters
  it has, and for a Number the text that \<^verbatim>\<open>Number::toString\<close> gives it. A request is
  sent for every argument. So a limit of \<open>-5\<close> is sent as \<^verbatim>\<open>limit=-5\<close>, one of
  \<open>10\<^sup>2\<^sup>1\<close> as \<^verbatim>\<open>limit=1e+21\<close>, a window of \<open>2\<^sup>6\<^sup>4\<close> days as
  \<^verbatim>\<open>days=18446744073709552000\<close>, one of a day and a half as \<^verbatim>\<open>days=1.5\<close> and one
  that is not a number as \<^verbatim>\<open>days=NaN\<close>.
\<close>

theorem url_concatenation:
  "map url (requests (snd (api_fetch net endpoint opts s))) =
     map url (requests s) @ [baseUrl (client s) @ endpoint]
   \<and> map url (requests (snd (getProcessingStatus net callId s))) =
     map url (requests s) @ [baseUrl (client s) @ ''/api/processing/status/'' @ callId]
   \<and> map url (requests (snd (getTranscript net callId s))) =
     map url (requests s) @ [baseUrl (client s) @ ''/api/processing/transcript/'' @ callId]
   \<and> map url (requests (snd (getQualityScore net callId s))) =
     map url (requests s) @ [baseUrl (client s) @ ''/api/processing/quality/'' @ callId]
   \<and> map url (requests (snd (getComplianceFlags net callId s))) =
     map url (requests s) @ [baseUrl (client s) @ ''/api/processing/compliance/'' @ callId]
   \<and> map url (requests (snd (getFullReport net callId s))) =
     map url (requests s) @ [baseUrl (client s) @ ''/api/processing/full-report/'' @ callId]
   \<and> map url (requests (snd (deleteCall net callId s))) =
     map url (requests s) @ [baseUrl (client s) @ ''/api/calls/'' @ callId]
   \<and> map url (requests (snd (getDashboardStats net (Some n) s))) =
     map url (requests s) @
       [baseUrl (client s) @ ''/api/analytics/dashboard?days='' @ number_to_string n]
   \<and> map url (requests (snd (getRecentCalls net (Some n) s))) =
     map url (requests s) @
       [baseUrl (client s) @ ''/api/analytics/recent-calls?limit='' @ number_to_string n]
   \<and> map url (requests (snd (getQualityTrends net (Some n) s))) =
     map url (requests s) @
       [baseUrl (client s) @ ''/api/analytics/quality-trends?days='' @ number_to_string n]
   \<and> map url (requests (snd (getComplianceSummary net (Some n) s))) =
     map url (requests s) @
       [baseUrl (client s) @ ''/api/analytics/compliance-summary?days='' @ number_to_string n]
   \<and> map url (requests (snd (getRecentCalls net (Some (Finite (- 5))) s))) =
     map url (requests s) @ [baseUrl (client s) @ ''/api/analytics/recent-calls?limit=-5'']
   \<and> map url (requests (snd (getRecentCalls net (Some (Finite (10 ^ 21))) s))) =
     map url (requests s) @ [baseUrl (client s) @ ''/api/analytics/recent-calls?limit=1e+21'']
   \<and> map url (requests (snd (getDashboardStats net (Some (Finite (2 ^ 64))) s))) =
     map url (requests s) @
       [baseUrl (client s) @ ''/api/analytics/dashboard?days=18446744073709552000'']
   \<and> map url (requests (snd (getQualityTrends net (Some (Finite (3 / 2))) s))) =
     map url (requests s) @ [baseUrl (client s) @ ''/api/analytics/quality-trends?days=1.5'']
   \<and> map url (requests (snd (getComplianceSummary net (Some NaN) s))) =
     map url (requests s) @ [baseUrl (client s) @ ''/api/analytics/compliance-summary?days=NaN'']"
  by (simp add: api_fetch_requests getProcessingStatus_def getTranscript_def getQualityScore_def
        getComplianceFlags_def getFullReport_def deleteCall_def getDashboardStats_def
        getRecentCalls_def getQualityTrends_def getComplianceSummary_def
        text_of_minus_5 text_of_10_to_21 [simplified] text_of_2_to_64 [simplified]
        text_of_three_halves text_of_NaN)

text \<open>
  A call id with a slash, a question mark and a hash goes into the URL as it is, and so
  does the text of a Number.
\<close>

theorem url_concatenation_witness:
  "map url (requests (snd (getProcessingStatus
      (always (Inl (JsError ''TypeError'' ''Failed to fetch''))) ''a/b?c#d''
      (initial_state (new_EchosenseAPI None) :: unit state))))
   = [''http://localhost:8000/api/processing/status/a/b?c#d'']
   \<and> map url (requests (snd (getRecentCalls
      (always (Inl (JsError ''TypeError'' ''Failed to fetch''))) (Some (Finite (10 ^ 21)))
      (initial_state (new_EchosenseAPI None) :: unit state))))
   = [''http://localhost:8000/api/analytics/recent-calls?limit=1e+21'']"
  using
    url_concatenation [of "always (Inl (JsError ''TypeError'' ''Failed to fetch''))" "[]" None
      "initial_state (new_EchosenseAPI None) :: unit state" "''a/b?c#d''" "Finite (10 ^ 21)"]
  by (simp add: initial_state_def new_EchosenseAPI_def API_BASE_URL_def
        text_of_10_to_21 [simplified])

section \<open>Failures\<close>


lemma operation_requests:
  assumes "operation net run"
  shows "\<exists>req. requests (snd (run s)) = requests s @ [req]
           \<and> prefix (baseUrl (client s)) (url req)"
  using assms
proof (cases rule: operation_cases)
  case (is_upload f)
  then show ?thesis by (simp add: uploadAudio_requests)
next
  case (is_helper endpoint opts)
  then show ?thesis by (simp add: api_fetch_requests)
qed

lemma operation_client:
  assumes "operation net run"
  shows "client (snd (run s)) = client s"
  using assms
proof (cases rule: operation_cases)
  case (is_upload f)
  then show ?thesis by (simp add: uploadAudio_client)
next
  case (is_helper endpoint opts)
  then show ?thesis by (simp add: api_fetch_client)
qed






section \<open>The base URL\<close>

text \<open>
  Claim C9. The client object has one field, the base URL. The constructor sets it to
  its argument, or to \<^verbatim>\<open>http://localhost:8000\<close> without one. In every state the client
  can reach, the object is the one constructed and the URL of every request sent so far
  begins with that base URL; no operation changes the object.
\<close>

theorem base_url_fixed:
  assumes "reachable arg s"
  shows "client s = new_EchosenseAPI arg
     \<and> baseUrl (client s) = (case arg of None \<Rightarrow> ''http://localhost:8000'' | Some b \<Rightarrow> b)
     \<and> (\<forall>req \<in> set (requests s). prefix (baseUrl (new_EchosenseAPI arg)) (url req))
     \<and> (\<forall>net run. operation net run \<longrightarrow> client (snd (run s)) = client s)"
proof -
  from assms have invariant: "client s = new_EchosenseAPI arg
      \<and> (\<forall>req \<in> set (requests s). prefix (baseUrl (new_EchosenseAPI arg)) (url req))"
  proof (induction rule: reachable.induct)
    case constructed
    show ?case by (simp add: initial_state_def)
  next
    case (step s net run)
    from operation_requests [OF step.hyps(2), of s]
    obtain req where "requests (snd (run s)) = requests s @ [req]"
      and "prefix (baseUrl (client s)) (url req)"
      by blast
    with step.IH operation_client [OF step.hyps(2), of s] show ?case
      by auto
  qed
  moreover have "baseUrl (new_EchosenseAPI arg) =
      (case arg of None \<Rightarrow> ''http://localhost:8000'' | Some b \<Rightarrow> b)"
    by (simp add: new_EchosenseAPI_def API_BASE_URL_def split: option.split)
  ultimately show ?thesis
    by (simp add: operation_client)
qed

theorem base_url_fixed_witness:
  "reachable None
     (snd (deleteCall (always (Inl (JsError ''TypeError'' ''Failed to fetch''))) ''abc123''
        (snd (uploadAudio (always (Inl (JsError ''TypeError'' ''Failed to fetch'')))
           ''recording.wav'' (initial_state (new_EchosenseAPI None))))))
   \<and> baseUrl (client
     (snd (deleteCall (always (Inl (JsError ''TypeError'' ''Failed to fetch''))) ''abc123''
        (snd (uploadAudio (always (Inl (JsError ''TypeError'' ''Failed to fetch'')))
           ''recording.wav'' (initial_state (new_EchosenseAPI None)))))))
     = ''http://localhost:8000''
   \<and> map url (requests
     (snd (deleteCall (always (Inl (JsError ''TypeError'' ''Failed to fetch''))) ''abc123''
        (snd (uploadAudio (always (Inl (JsError ''TypeError'' ''Failed to fetch'')))
           ''recording.wav'' (initial_state (new_EchosenseAPI None)))))))
     = [''http://localhost:8000/api/upload/audio'', ''http://localhost:8000/api/calls/abc123'']"
proof -
  let ?net = "always (Inl (JsError ''TypeError'' ''Failed to fetch'')) :: string network"
  let ?s0 = "initial_state (new_EchosenseAPI None) :: string state"
  let ?s1 = "snd (uploadAudio ?net ''recording.wav'' ?s0)"
  let ?s2 = "snd (deleteCall ?net ''abc123'' ?s1)"
  have "reachable None ?s1"
    by (rule reachable.step [OF reachable.constructed operation.upload])
  then have reach: "reachable None ?s2"
    by (rule reachable.step [OF _ operation.generic [OF generic_operation.delete_call]])
  have sent: "map url (requests ?s2) =
      [baseUrl (client ?s0) @ ''/api/upload/audio'', baseUrl (client ?s1) @ ''/api/calls/abc123'']"
    by (simp add: deleteCall_def api_fetch_requests uploadAudio_requests initial_state_def)
  from base_url_fixed [OF reach] reach sent show ?thesis
    by (simp add: uploadAudio_client initial_state_def new_EchosenseAPI_def API_BASE_URL_def)
qed

end
